theory Spec2Isabelle
  imports Complex_Main
begin

text \<open>
  An embedding of \<open>ocr_plugin.py\<close>, the ocrmypdf plugin that sends a page image to
  the Google Cloud Vision service and turns the reply into an hOCR document and a
  plain text: the helpers \<open>_get_bbox\<close> and \<open>_get_confidence\<close>, the transcoder
  \<open>_generate_hocr\<close>, and the engine's method \<open>generate_hocr\<close> with the environment, the
  files and the service it touches.
\<close>

section \<open>Python strings and integers\<close>

text \<open>
  A Python \<open>str\<close> is a sequence of Unicode code points. The recognised text is mostly
  Korean, and \<open>str.strip\<close> removes Unicode white space, so a string is modelled as the
  list of its code points (natural numbers), not as a list of bytes. \<open>lit\<close> embeds an
  ASCII literal of the source.
\<close>

type_synonym pystr = "nat list"

definition lit :: "string \<Rightarrow> pystr" where
  "lit s = map of_char s"

text \<open>\<open>str(n)\<close> for a Python integer: decimal digits, a minus sign for negatives.\<close>

fun str_nat :: "nat \<Rightarrow> pystr" where
  "str_nat n = (if n < 10 then [48 + n] else str_nat (n div 10) @ [48 + n mod 10])"

declare str_nat.simps [simp del]

definition str_int :: "int \<Rightarrow> pystr" where
  "str_int i = (if i < 0 then 45 # str_nat (nat (- i)) else str_nat (nat i))"

text \<open>
  \<open>c.isspace()\<close> for one code point, the test behind \<open>str.strip()\<close>: the ASCII
  control and space characters 9 to 13, 28 to 32, then U+0085, U+00A0, U+1680,
  U+2000 to U+200A, U+2028, U+2029, U+202F, U+205F and U+3000.
\<close>

definition py_isspace :: "nat \<Rightarrow> bool" where
  "py_isspace c \<longleftrightarrow>
     (9 \<le> c \<and> c \<le> 13) \<or> (28 \<le> c \<and> c \<le> 32) \<or> c = 133 \<or> c = 160 \<or> c = 5760 \<or>
     (8192 \<le> c \<and> c \<le> 8202) \<or> c = 8232 \<or> c = 8233 \<or> c = 8239 \<or> c = 8287 \<or> c = 12288"

definition py_strip :: "pystr \<Rightarrow> pystr" where
  "py_strip s = rev (dropWhile py_isspace (rev (dropWhile py_isspace s)))"

text \<open>
  \<open>s.replace(old, new)\<close> where \<open>old\<close> is a single character, which is how the source
  calls it: every occurrence of the character is replaced, left to right.
\<close>

definition py_replace :: "pystr \<Rightarrow> nat \<Rightarrow> pystr \<Rightarrow> pystr" where
  "py_replace s old new = concat (map (\<lambda>c. if c = old then new else [c]) s)"

text \<open>\<open>sep.join(xs)\<close>.\<close>

fun py_join :: "pystr \<Rightarrow> pystr list \<Rightarrow> pystr" where
  "py_join sep [] = []"
| "py_join sep [x] = x"
| "py_join sep (x # y # ys) = x @ sep @ py_join sep (y # ys)"

text \<open>\<open>d.get(key, default)\<close> on a field that may be absent from the JSON object.\<close>

definition get_default :: "'a option \<Rightarrow> 'a \<Rightarrow> 'a" where
  "get_default field dflt = (case field of None \<Rightarrow> dflt | Some v \<Rightarrow> v)"

section \<open>The detection response\<close>

text \<open>
  The service's reply is JSON, read into nested Python dictionaries and lists. The
  records below follow the schema of that reply (the keys the plugin reads); a key
  that may be missing is an \<open>option\<close>, and every read of the source goes through
  \<open>get_default\<close> with the default the source gives. Coordinates, width and height are
  JSON integers, texts are JSON strings. A reply that does not follow the schema (a
  number where a list is expected, say) makes the source raise somewhere on its way
  through the reply; such replies are not values of these records, and the
  statements below are about replies that follow the schema.

  A confidence is a JSON number that Python holds as a double; \<open>pyfloat\<close> is the exact
  value of a finite double. The arithmetic of doubles (rounding after every
  operation) is not defined here: the four operations \<open>_get_confidence\<close> performs are
  taken as a parameter \<open>float_arith\<close>, and nothing below depends on what they compute.
\<close>

type_synonym pyfloat = rat

record float_arith =
  float_sum :: "pyfloat list \<Rightarrow> pyfloat"
  float_div_len :: "pyfloat \<Rightarrow> nat \<Rightarrow> pyfloat"
  float_mul :: "pyfloat \<Rightarrow> int \<Rightarrow> pyfloat"
  float_to_int :: "pyfloat \<Rightarrow> int"

text \<open>The double nearest to the literal \<open>0.9\<close>.\<close>

definition literal_0_9 :: pyfloat where
  "literal_0_9 = 8106479329266893 / 9007199254740992"

record vertex =
  vertex_x :: "int option"
  vertex_y :: "int option"

record bounding_box =
  vertices :: "vertex list option"

record symbol =
  symbol_text :: "pystr option"
  symbol_confidence :: "pyfloat option"

record word =
  word_boundingBox :: "bounding_box option"
  word_symbols :: "symbol list option"

record "paragraph" =
  paragraph_boundingBox :: "bounding_box option"
  paragraph_words :: "word list option"

record block =
  block_boundingBox :: "bounding_box option"
  block_paragraphs :: "paragraph list option"

record page =
  page_width :: "int option"
  page_height :: "int option"
  page_blocks :: "block list option"

record full_text_annotation =
  fta_pages :: "page list option"
  fta_text :: "pystr option"

record api_error =
  error_message :: "pystr option"

record annotation =
  annotation_error :: "api_error option"
  annotation_fullTextAnnotation :: "full_text_annotation option"

record api_result =
  result_responses :: "annotation list option"

text \<open>The empty dictionary \<open>{}\<close> that the source passes as a default, at each type.\<close>

definition empty_bounding_box :: bounding_box where
  "empty_bounding_box = \<lparr>vertices = None\<rparr>"

definition empty_full_text_annotation :: full_text_annotation where
  "empty_full_text_annotation = \<lparr>fta_pages = None, fta_text = None\<rparr>"

definition empty_annotation :: annotation where
  "empty_annotation = \<lparr>annotation_error = None, annotation_fullTextAnnotation = None\<rparr>"

section \<open>Bounding boxes and confidence\<close>

definition get_bbox :: "bounding_box \<Rightarrow> pystr" where
  "get_bbox bounding_box =
     (let vs = get_default (vertices bounding_box) [] in
      if length vs < 4 then lit ''0 0 0 0''
      else
        let x1 = max (get_default (vertex_x (vs ! 0)) 0) 0;
            y1 = max (get_default (vertex_y (vs ! 0)) 0) 0;
            x2 = max (get_default (vertex_x (vs ! 2)) 0) 0;
            y2 = max (get_default (vertex_y (vs ! 2)) 0) 0
        in str_int x1 @ lit '' '' @ str_int y1 @ lit '' '' @ str_int x2 @ lit '' '' @ str_int y2)"

definition get_confidence :: "float_arith \<Rightarrow> word \<Rightarrow> int" where
  "get_confidence fa word =
     (let symbols = get_default (word_symbols word) [] in
      if symbols = [] then 90
      else
        let confidences = map (\<lambda>s. get_default (symbol_confidence s) literal_0_9) symbols;
            avg = float_div_len fa (float_sum fa confidences) (length confidences)
        in float_to_int fa (float_mul fa avg 100))"

section \<open>The transcoder\<close>

text \<open>
  \<open>_generate_hocr\<close> builds a list of lines while four counters run. The state of its
  loops is the record below; \<open>lines.append(l)\<close> is \<open>append_line\<close>. Each \<open>for\<close> loop is a
  \<open>foldl\<close> of its body over the list it walks, in the order of the list.
\<close>

record hocr_state =
  lines :: "pystr list"
  word_id :: nat
  block_id :: nat
  par_id :: nat
  line_id :: nat

definition append_line :: "hocr_state \<Rightarrow> pystr \<Rightarrow> hocr_state" where
  "append_line st l = st\<lparr>lines := lines st @ [l]\<rparr>"

text \<open>The four \<open>replace\<close> calls on the word text (HTML escaping), in the source's order.\<close>

definition escape_html :: "pystr \<Rightarrow> pystr" where
  "escape_html word_text =
     py_replace (py_replace (py_replace (py_replace word_text
       38 (lit ''&amp;'')) 60 (lit ''&lt;'')) 62 (lit ''&gt;'')) 34 (lit ''&quot;'')"

text \<open>The text of a word: the texts of its symbols, joined with nothing between.\<close>

definition joined_symbol_text :: "word \<Rightarrow> pystr" where
  "joined_symbol_text word =
     concat (map (\<lambda>symbol. get_default (symbol_text symbol) []) (get_default (word_symbols word) []))"

text \<open>
  The four lines that carry an identifier, as the source's f-strings build them from
  the counter \<open>n\<close>, the bbox string and, for a word, the confidence and the escaped text.
\<close>

definition carea_line :: "nat \<Rightarrow> pystr \<Rightarrow> pystr" where
  \<open>carea_line n block_bbox =
     lit ''    <div class="ocr_carea" id="block_'' @ str_nat n @
     lit ''" title="bbox '' @ block_bbox @ lit ''">''\<close>

definition par_line :: "nat \<Rightarrow> pystr \<Rightarrow> pystr" where
  \<open>par_line n par_bbox =
     lit ''      <p class="ocr_par" id="par_'' @ str_nat n @
     lit ''" title="bbox '' @ par_bbox @ lit ''">''\<close>

definition line_line :: "nat \<Rightarrow> pystr \<Rightarrow> pystr" where
  \<open>line_line n par_bbox =
     lit ''        <span class="ocr_line" id="line_'' @ str_nat n @
     lit ''" title="bbox '' @ par_bbox @ lit ''">''\<close>

definition word_line :: "nat \<Rightarrow> pystr \<Rightarrow> int \<Rightarrow> pystr \<Rightarrow> pystr" where
  \<open>word_line n word_bbox conf word_text =
     lit ''          <span class="ocrx_word" id="word_'' @ str_nat n @ lit ''" '' @
     lit ''title="bbox '' @ word_bbox @ lit ''; x_wconf '' @ str_int conf @ lit ''">'' @
     word_text @ lit ''</span>''\<close>

text \<open>The body of the loop over the words of a paragraph.\<close>

definition word_step :: "float_arith \<Rightarrow> hocr_state \<Rightarrow> word \<Rightarrow> hocr_state" where
  "word_step fa st word =
     (let word_bbox = get_bbox (get_default (word_boundingBox word) empty_bounding_box);
          word_text = joined_symbol_text word
      in if py_strip word_text = [] then st
         else
           let word_text = escape_html word_text;
               st = st\<lparr>word_id := word_id st + 1\<rparr>;
               conf = get_confidence fa word
           in append_line st (word_line (word_id st) word_bbox conf word_text))"

text \<open>The body of the loop over the paragraphs of a block.\<close>

definition paragraph_step :: "float_arith \<Rightarrow> hocr_state \<Rightarrow> paragraph \<Rightarrow> hocr_state" where
  "paragraph_step fa st paragraph =
     (let par_bbox = get_bbox (get_default (paragraph_boundingBox paragraph) empty_bounding_box);
          st = st\<lparr>par_id := par_id st + 1\<rparr>;
          st = append_line st (par_line (par_id st) par_bbox);
          st = st\<lparr>line_id := line_id st + 1\<rparr>;
          st = append_line st (line_line (line_id st) par_bbox);
          st = foldl (word_step fa) st (get_default (paragraph_words paragraph) []);
          st = append_line st (lit ''        </span>'')
      in append_line st (lit ''      </p>''))"

text \<open>The body of the loop over the blocks of the page.\<close>

definition block_step :: "float_arith \<Rightarrow> hocr_state \<Rightarrow> block \<Rightarrow> hocr_state" where
  "block_step fa st block =
     (let block_bbox = get_bbox (get_default (block_boundingBox block) empty_bounding_box);
          st = st\<lparr>block_id := block_id st + 1\<rparr>;
          st = append_line st (carea_line (block_id st) block_bbox);
          st = foldl (paragraph_step fa) st (get_default (block_paragraphs block) [])
      in append_line st (lit ''    </div>''))"

text \<open>The ten lines the document starts with; the last one is the page container.\<close>

definition preamble :: "int \<Rightarrow> int \<Rightarrow> pystr list" where
  \<open>preamble width height =
     [lit ''<?xml version="1.0" encoding="UTF-8"?>'',
      lit ''<!DOCTYPE html PUBLIC "-//W3C//DTD XHTML 1.0 Transitional//EN"'',
      lit ''  "http://www.w3.org/TR/xhtml1/DTD/xhtml1-transitional.dtd">'',
      lit ''<html xmlns="http://www.w3.org/1999/xhtml" xml:lang="ko" lang="ko">'',
      lit ''<head>'',
      lit ''  <title>Google Vision OCR</title>'',
      lit ''  <meta http-equiv="Content-Type" content="text/html; charset=utf-8" />'',
      lit ''</head>'',
      lit ''<body>'',
      lit ''  <div class="ocr_page" id="page_1" title="bbox 0 0 '' @ str_int width @ lit '' '' @
        str_int height @ lit ''; ppageno 0">'']\<close>

text \<open>
  The state after the loop over the blocks and the three closing lines, and the
  document: the lines joined by a newline (code point 10). This is the module-level
  \<open>_generate_hocr(page, width, height)\<close>; the engine's method of the same name without
  the underscore is \<open>generate_hocr\<close> below.
\<close>

definition generate_hocr_state :: "float_arith \<Rightarrow> page \<Rightarrow> int \<Rightarrow> int \<Rightarrow> hocr_state" where
  \<open>generate_hocr_state fa page width height =
     (let st = \<lparr>lines = preamble width height, word_id = 0, block_id = 0, par_id = 0, line_id = 0\<rparr>;
          st = foldl (block_step fa) st (get_default (page_blocks page) []);
          st = append_line st (lit ''  </div>'');
          st = append_line st (lit ''</body>'')
      in append_line st (lit ''</html>''))\<close>

definition generate_hocr_page :: "float_arith \<Rightarrow> page \<Rightarrow> int \<Rightarrow> int \<Rightarrow> pystr" where
  "generate_hocr_page fa page width height =
     py_join [10] (lines (generate_hocr_state fa page width height))"

section \<open>The engine: environment, files and the remote service\<close>

text \<open>
  What \<open>generate_hocr\<close> touches outside itself is the record \<open>world\<close>: the process
  environment, the files (a path maps to the content of the file, when there is one),
  the remote service (what it answers to a request) and the log of the requests sent.
  A file read in binary mode yields its bytes; \<open>write_text\<close> stores the text it is
  given at the path (the encoding to UTF-8 bytes and failures of the operating system
  while writing are below this model).
\<close>

datatype py_error =
    RuntimeError pystr
  | OSError
  | RequestException
  | HTTPError nat
  | JSONDecodeError
  | IndexError

record request =
  request_url :: pystr
  request_image_content :: pystr
  request_feature_types :: "pystr list"
  request_language_hints :: "pystr list"
  request_timeout :: nat

text \<open>
  \<open>requests.post\<close> either raises (no connection, timeout) or returns a response with
  a status code and a body; \<open>response.json()\<close> raises when the body is not JSON, which
  is the body \<open>None\<close>.
\<close>

datatype http_reply = No_response | Response nat "api_result option"

record world =
  environ :: "pystr \<rightharpoonup> pystr"
  files :: "pystr \<rightharpoonup> pystr"
  service :: "request \<Rightarrow> http_reply"
  posts :: "request list"

definition write_text :: "world \<Rightarrow> pystr \<Rightarrow> pystr \<Rightarrow> world" where
  "write_text w path content = w\<lparr>files := (files w)(path \<mapsto> content)\<rparr>"

text \<open>
  \<open>base64.b64encode\<close> on a list of bytes (numbers below 256), with the standard
  alphabet and padding.
\<close>

definition b64_alphabet :: string where
  "b64_alphabet = ''ABCDEFGHIJKLMNOPQRSTUVWXYZabcdefghijklmnopqrstuvwxyz0123456789+/''"

definition b64_char :: "nat \<Rightarrow> nat" where
  "b64_char i = of_char (b64_alphabet ! i)"

fun b64encode :: "nat list \<Rightarrow> pystr" where
  "b64encode [] = []"
| "b64encode [a] = [b64_char (a div 4), b64_char (a mod 4 * 16), 61, 61]"
| "b64encode [a, b] =
     [b64_char (a div 4), b64_char (a mod 4 * 16 + b div 16), b64_char (b mod 16 * 4), 61]"
| "b64encode (a # b # c # rest) =
     [b64_char (a div 4), b64_char (a mod 4 * 16 + b div 16),
      b64_char (b mod 16 * 4 + c div 64), b64_char (c mod 64)] @ b64encode rest"

definition empty_hocr :: pystr where
  \<open>empty_hocr =
     lit ''<?xml version="1.0" encoding="UTF-8"?>'' @ [10] @
     lit ''<!DOCTYPE html PUBLIC "-//W3C//DTD XHTML 1.0 Transitional//EN"'' @ [10] @
     lit ''  "http://www.w3.org/TR/xhtml1/DTD/xhtml1-transitional.dtd">'' @ [10] @
     lit ''<html xmlns="http://www.w3.org/1999/xhtml">'' @ [10] @
     lit ''<head><title>Empty</title></head>'' @ [10] @
     lit ''<body><div class="ocr_page" title="bbox 0 0 1 1"></div></body>'' @ [10] @
     lit ''</html>''\<close>

definition write_empty_hocr :: "world \<Rightarrow> pystr \<Rightarrow> world" where
  "write_empty_hocr w output_path = write_text w output_path empty_hocr"

text \<open>
  The two messages of the source's \<open>RuntimeError\<close>s; the Korean words are given by
  their code points.
\<close>

definition missing_key_message :: pystr where
  "missing_key_message =
     lit ''GOOGLE_VISION_API_KEY '' @
     [54872, 44221, 48320, 49688, 44032, 32, 49444, 51221, 46104, 51648, 32,
      50506, 50520, 49845, 45768, 45796]"

definition api_error_prefix :: pystr where
  "api_error_prefix = lit ''Vision API '' @ [50724, 47448, 58, 32]"

definition make_request :: "pystr \<Rightarrow> pystr \<Rightarrow> request" where
  "make_request api_key image_content =
     \<lparr>request_url = lit ''https://vision.googleapis.com/v1/images:annotate?key='' @ api_key,
      request_image_content = image_content,
      request_feature_types = [lit ''DOCUMENT_TEXT_DETECTION''],
      request_language_hints = [lit ''ko'', lit ''en''],
      request_timeout = 120\<rparr>"

text \<open>
  \<open>not v\<close> for a value that is \<open>None\<close> or a string, as \<open>os.environ.get\<close> returns it: true
  for \<open>None\<close> and for the empty string.
\<close>

definition py_not :: "pystr option \<Rightarrow> bool" where
  "py_not v \<longleftrightarrow> (case v of None \<Rightarrow> True | Some s \<Rightarrow> s = [])"

text \<open>
  \<open>GoogleVisionOcrEngine.generate_hocr\<close>. A raise of the source, or of a library call
  it makes, is \<open>Inl\<close> of the exception with the world as it is at that moment; the
  plain \<open>return\<close> and the end of the body are \<open>Inr ()\<close>. \<open>options\<close> is not read.
\<close>

definition generate_hocr ::
  "float_arith \<Rightarrow> pystr \<Rightarrow> pystr \<Rightarrow> pystr \<Rightarrow> 'o \<Rightarrow> world \<Rightarrow> (py_error + unit) \<times> world" where
  "generate_hocr fa input_file output_hocr output_text options w =
     (let api_key = environ w (lit ''GOOGLE_VISION_API_KEY'') in
      if py_not api_key then (Inl (RuntimeError missing_key_message), w)
      else
        (case files w input_file of
          None \<Rightarrow> (Inl OSError, w)
        | Some bytes \<Rightarrow>
            (let image_content = b64encode bytes;
                 req = make_request (the api_key) image_content;
                 w = w\<lparr>posts := posts w @ [req]\<rparr>
             in (case service w req of
                  No_response \<Rightarrow> (Inl RequestException, w)
                | Response status body \<Rightarrow>
                    if 400 \<le> status \<and> status < 600 then (Inl (HTTPError status), w)
                    else
                      (case body of
                        None \<Rightarrow> (Inl JSONDecodeError, w)
                      | Some result \<Rightarrow>
                          (case get_default (result_responses result) [empty_annotation] of
                            [] \<Rightarrow> (Inl IndexError, w)
                          | annotation # _ \<Rightarrow>
                              (case annotation_error annotation of
                                Some err \<Rightarrow>
                                  (Inl (RuntimeError
                                     (api_error_prefix @
                                      get_default (error_message err) (lit ''Unknown error''))), w)
                              | None \<Rightarrow>
                                  (let full_text_annotation =
                                         get_default (annotation_fullTextAnnotation annotation)
                                           empty_full_text_annotation;
                                       pages = get_default (fta_pages full_text_annotation) []
                                   in (case pages of
                                        [] \<Rightarrow>
                                          (Inr (),
                                           write_text (write_empty_hocr w output_hocr) output_text [])
                                      | page # _ \<Rightarrow>
                                          (let width = get_default (page_width page) 1;
                                               height = get_default (page_height page) 1;
                                               text = get_default (fta_text full_text_annotation) [];
                                               w = write_text w output_text text;
                                               hocr = generate_hocr_page fa page width height
                                           in (Inr (), write_text w output_hocr hocr)))))))))))"

section \<open>The specification's terms\<close>

text \<open>
  The definitions of this section are not taken from the source. They say what the
  specification's sentences mean, so that the source's functions can be compared
  with them.
\<close>

subsection \<open>Coordinates\<close>

text \<open>A coordinate that is missing counts as 0, and a negative one is raised to 0.\<close>

definition clamped_coordinate :: "int option \<Rightarrow> nat" where
  "clamped_coordinate c = (case c of None \<Rightarrow> 0 | Some a \<Rightarrow> if a < 0 then 0 else nat a)"

subsection \<open>Escaping\<close>

text \<open>
  What one character of a word's text becomes: the entity for each of the four
  reserved characters \<open>&\<close> (38), \<open><\<close> (60), \<open>>\<close> (62) and the double quote (34), and
  the character itself otherwise.
\<close>

definition entity :: "nat \<Rightarrow> pystr" where
  "entity c =
     (if c = 38 then lit ''&amp;''
      else if c = 60 then lit ''&lt;''
      else if c = 62 then lit ''&gt;''
      else if c = 34 then lit ''&quot;''
      else [c])"

subsection \<open>The nodes of the document\<close>



text \<open>A word is emitted when its text has a character that is not white space.\<close>

definition emitted :: "word \<Rightarrow> bool" where
  "emitted word \<longleftrightarrow> py_strip (joined_symbol_text word) \<noteq> []"




definition word_bbox_of :: "word \<Rightarrow> pystr" where
  "word_bbox_of word = get_bbox (get_default (word_boundingBox word) empty_bounding_box)"














subsection \<open>The page container of a document\<close>








subsection \<open>Invocations that reach the service\<close>

text \<open>
  The request an invocation sends, and the condition under which it is sent and
  answered: the credential is set and not empty, the input file can be read, and
  the service's reply to the request is \<open>reply\<close>. \<open>detected_pages\<close> are the pages of a
  response entry, none when the entry has no text annotation or no page list.
\<close>

definition the_request :: "world \<Rightarrow> pystr \<Rightarrow> request" where
  "the_request w input_file =
     make_request (the (environ w (lit ''GOOGLE_VISION_API_KEY'')))
       (b64encode (the (files w input_file)))"

definition answered :: "world \<Rightarrow> pystr \<Rightarrow> http_reply \<Rightarrow> bool" where
  "answered w input_file reply \<longleftrightarrow>
     \<not> py_not (environ w (lit ''GOOGLE_VISION_API_KEY'')) \<and>
     files w input_file \<noteq> None \<and>
     service w (the_request w input_file) = reply"

definition detected_pages :: "annotation \<Rightarrow> page list" where
  "detected_pages annotation =
     get_default (fta_pages (get_default (annotation_fullTextAnnotation annotation)
       empty_full_text_annotation)) []"

section \<open>Sample data\<close>

text \<open>
  Concrete values on which the theorems below are run. \<open>exact_arith\<close> computes with
  exact fractions and truncates; it stands in for the arithmetic of doubles where a
  closed example needs some value for the parameter, and no theorem relies on it
  being that arithmetic.
\<close>

definition exact_arith :: float_arith where
  "exact_arith =
     \<lparr>float_sum = sum_list,
      float_div_len = (\<lambda>x n. x / of_nat n),
      float_mul = (\<lambda>x k. x * of_int k),
      float_to_int = (\<lambda>x. if x < 0 then \<lceil>x\<rceil> else \<lfloor>x\<rfloor>)\<rparr>"

definition pt :: "int \<Rightarrow> int \<Rightarrow> vertex" where
  "pt a b = \<lparr>vertex_x = Some a, vertex_y = Some b\<rparr>"

definition box :: "int \<Rightarrow> int \<Rightarrow> int \<Rightarrow> int \<Rightarrow> bounding_box option" where
  "box a b c d = Some \<lparr>vertices = Some [pt a b, pt c b, pt c d, pt a d]\<rparr>"

definition sym :: "string \<Rightarrow> symbol" where
  "sym s = \<lparr>symbol_text = Some (lit s), symbol_confidence = None\<rparr>"

definition hello_word :: word where
  "hello_word = \<lparr>word_boundingBox = box 1 1 30 10, word_symbols = Some [sym ''Hel'', sym ''lo'']\<rparr>"

definition blank_word :: word where
  "blank_word =
     \<lparr>word_boundingBox = box 31 1 39 10,
      word_symbols = Some [sym '' '', \<lparr>symbol_text = Some [9], symbol_confidence = Some 1\<rparr>]\<rparr>"

definition world_word :: word where
  "world_word = \<lparr>word_boundingBox = box 40 1 80 10, word_symbols = Some [sym ''World'']\<rparr>"


definition reply_world :: "http_reply \<Rightarrow> world" where
  "reply_world reply =
     \<lparr>environ = [lit ''GOOGLE_VISION_API_KEY'' \<mapsto> lit ''secret''],
      files = [lit ''page.png'' \<mapsto> [137, 80, 78, 71]],
      service = (\<lambda>req. reply),
      posts = []\<rparr>"

definition no_text_reply :: http_reply where
  "no_text_reply = Response 200 (Some \<lparr>result_responses = Some [empty_annotation]\<rparr>)"

definition quota_reply :: http_reply where
  "quota_reply =
     Response 200 (Some \<lparr>result_responses = Some
       [\<lparr>annotation_error = Some \<lparr>error_message = Some (lit ''Quota exceeded'')\<rparr>,
         annotation_fullTextAnnotation = None\<rparr>]\<rparr>)"

definition sent_world :: "http_reply \<Rightarrow> world" where
  "sent_world reply =
     (reply_world reply)\<lparr>posts := [make_request (lit ''secret'') (b64encode [137, 80, 78, 71])]\<rparr>"

text \<open>A state of the loops with no line yet and the four counters at 0.\<close>

definition st0 :: hocr_state where
  "st0 = \<lparr>lines = [], word_id = 0, block_id = 0, par_id = 0, line_id = 0\<rparr>"

definition amp_word :: word where
  \<open>amp_word = \<lparr>word_boundingBox = None, word_symbols = Some [sym ''<R&D>'', sym ''"'']\<rparr>\<close>

section \<open>Lemmas\<close>

subsection \<open>Strings\<close>

lemma str_int_clamped:
  "str_int (max (get_default c 0) 0) = str_nat (clamped_coordinate c)"
  by (cases c) (auto simp: str_int_def get_default_def clamped_coordinate_def max_def)

lemma str_nat_digit: "n < 10 \<Longrightarrow> str_nat n = [48 + n]"
  by (simp add: str_nat.simps)

lemma str_nat_10: "str_nat 10 = [49, 48]"
  by (simp add: str_nat.simps [of 10] str_nat_digit)

lemma py_replace_append: "py_replace (s @ t) old new = py_replace s old new @ py_replace t old new"
  by (simp add: py_replace_def)

lemma escape_html_append: "escape_html (s @ t) = escape_html s @ escape_html t"
  by (simp add: escape_html_def py_replace_append)

lemma escape_html_single: "escape_html [c] = entity c"
  by (simp add: escape_html_def py_replace_def entity_def lit_def)

lemma escape_html_Nil: "escape_html [] = []"
  by (simp add: escape_html_def py_replace_def)

lemma escape_html_entities: "escape_html t = concat (map entity t)"
proof (induction t)
  case Nil
  show ?case by (simp add: escape_html_Nil)
next
  case (Cons c t)
  have "escape_html (c # t) = escape_html ([c] @ t)" by simp
  also have "\<dots> = entity c @ escape_html t"
    by (simp only: escape_html_append escape_html_single)
  finally show ?case using Cons.IH by simp
qed

subsection \<open>The loops of the transcoder\<close>

lemma word_step_blank: "\<not> emitted word \<Longrightarrow> word_step fa st word = st"
  by (simp add: word_step_def emitted_def Let_def)

lemma word_step_emitted:
  "emitted word \<Longrightarrow>
   word_step fa st word =
     st\<lparr>word_id := word_id st + 1,
        lines := lines st @ [word_line (word_id st + 1) (word_bbox_of word) (get_confidence fa word)
                   (escape_html (joined_symbol_text word))]\<rparr>"
  by (simp add: word_step_def emitted_def Let_def append_line_def word_bbox_of_def)

lemma all_dropWhile: "(\<forall>x \<in> set (dropWhile P s). P x) \<longleftrightarrow> (\<forall>x \<in> set s. P x)"
  by (induction s) auto

lemma strip_empty_iff: "py_strip s = [] \<longleftrightarrow> (\<forall>c \<in> set s. py_isspace c)"
  by (simp add: py_strip_def dropWhile_eq_Nil_conv all_dropWhile)

lemma foldl_word_step_skip:
  "\<not> emitted word \<Longrightarrow>
   foldl (word_step fa) st (ws1 @ word # ws2) = foldl (word_step fa) st (ws1 @ ws2)"
  by (simp add: word_step_blank)









subsection \<open>Confidence\<close>

text \<open>
  The one branch of \<open>_get_confidence\<close> without floating point: no symbols, 90. The
  transcoder never takes it for a word it emits, since a word without symbols has
  the empty text.
\<close>

lemma get_confidence_no_symbols:
  "get_default (word_symbols word) [] = [] \<Longrightarrow> get_confidence fa word = 90"
  by (simp add: get_confidence_def)

lemma no_symbols_not_emitted:
  "get_default (word_symbols word) [] = [] \<Longrightarrow> \<not> emitted word"
  by (simp add: emitted_def joined_symbol_text_def py_strip_def)

subsection \<open>Identifiers in the node sequence\<close>












subsection \<open>The paths through the engine's method\<close>

lemma generate_hocr_no_key:
  "py_not (environ w (lit ''GOOGLE_VISION_API_KEY'')) \<Longrightarrow>
   generate_hocr fa input_file output_hocr output_text options w =
     (Inl (RuntimeError missing_key_message), w)"
  by (simp add: generate_hocr_def)

lemma generate_hocr_answered:
  assumes "answered w input_file reply"
  shows "generate_hocr fa input_file output_hocr output_text options w =
     (let w1 = w\<lparr>posts := posts w @ [the_request w input_file]\<rparr> in
      case reply of
        No_response \<Rightarrow> (Inl RequestException, w1)
      | Response status body \<Rightarrow>
          if 400 \<le> status \<and> status < 600 then (Inl (HTTPError status), w1)
          else
            (case body of
              None \<Rightarrow> (Inl JSONDecodeError, w1)
            | Some result \<Rightarrow>
                (case get_default (result_responses result) [empty_annotation] of
                  [] \<Rightarrow> (Inl IndexError, w1)
                | annotation # _ \<Rightarrow>
                    (case annotation_error annotation of
                      Some err \<Rightarrow>
                        (Inl (RuntimeError
                           (api_error_prefix @
                            get_default (error_message err) (lit ''Unknown error''))), w1)
                    | None \<Rightarrow>
                        (case detected_pages annotation of
                          [] \<Rightarrow> (Inr (), write_text (write_empty_hocr w1 output_hocr) output_text [])
                        | page # _ \<Rightarrow>
                            (Inr (),
                             write_text
                               (write_text w1 output_text
                                  (get_default (fta_text (get_default
                                     (annotation_fullTextAnnotation annotation)
                                     empty_full_text_annotation)) []))
                               output_hocr
                               (generate_hocr_page fa page (get_default (page_width page) 1)
                                  (get_default (page_height page) 1))))))))"
proof -
  from assms obtain bytes where b: "files w input_file = Some bytes"
    by (auto simp: answered_def)
  from assms have k: "\<not> py_not (environ w (lit ''GOOGLE_VISION_API_KEY''))"
    by (simp add: answered_def)
  have r: "the_request w input_file =
      make_request (the (environ w (lit ''GOOGLE_VISION_API_KEY''))) (b64encode bytes)"
    using b by (simp add: the_request_def)
  from assms have s: "service w (the_request w input_file) = reply"
    by (simp add: answered_def)
  show ?thesis
  proof (cases reply)
    case No_response
    with k b s show ?thesis
      by (simp add: generate_hocr_def Let_def flip: r)
  next
    case (Response status body)
    show ?thesis
    proof (cases "400 \<le> status \<and> status < 600")
      case True
      with Response k b s show ?thesis
        by (simp add: generate_hocr_def Let_def flip: r)
    next
      case False
      with Response k b s show ?thesis
        by (simp add: generate_hocr_def Let_def detected_pages_def flip: r
            split: option.splits list.splits)
    qed
  qed
qed

text \<open>
  In this model, where writing a file cannot fail, every raise comes before the
  first write.
\<close>

lemma generate_hocr_failure_keeps_files:
  "generate_hocr fa input_file output_hocr output_text options w = (Inl e, w') \<Longrightarrow> files w' = files w"
  by (auto simp: generate_hocr_def Let_def split: option.splits http_reply.splits list.splits if_splits)

subsection \<open>The sample data\<close>

lemma emitted_world_word: "emitted world_word"
  by (simp add: emitted_def world_word_def joined_symbol_text_def get_default_def sym_def
      py_strip_def py_isspace_def lit_def)

lemma emitted_hello_word: "emitted hello_word"
  by (simp add: emitted_def hello_word_def joined_symbol_text_def get_default_def sym_def
      py_strip_def py_isspace_def lit_def)

lemma blank_word_white: "\<forall>c \<in> set (joined_symbol_text blank_word). py_isspace c"
  by (simp add: blank_word_def joined_symbol_text_def get_default_def sym_def
      py_isspace_def lit_def)

lemma emitted_amp_word: "emitted amp_word"
  by (simp add: emitted_def amp_word_def joined_symbol_text_def get_default_def sym_def
      py_strip_def py_isspace_def lit_def)





lemma reply_world_answered: "answered (reply_world reply) (lit ''page.png'') reply"
  by (simp add: answered_def reply_world_def py_not_def lit_def)

lemma reply_world_sent:
  "(reply_world reply)\<lparr>posts := posts (reply_world reply) @
      [the_request (reply_world reply) (lit ''page.png'')]\<rparr> = sent_world reply"
  by (simp add: sent_world_def reply_world_def the_request_def lit_def)


section \<open>Properties of the plugin\<close>




text \<open>
  C3. The bbox string is built from the first and third corner points, each
  coordinate read as 0 when missing and raised to 0 when negative; the rectangle
  (0,0),(10,0),(10,5),(0,5) gives "0 0 10 5"; fewer than four points (or no vertex
  list at all) give "0 0 0 0".
\<close>

theorem get_bbox_first_third_corner:
  "(4 \<le> length vs \<longrightarrow>
      get_bbox \<lparr>vertices = Some vs\<rparr> =
        str_nat (clamped_coordinate (vertex_x (vs ! 0))) @ lit '' '' @
        str_nat (clamped_coordinate (vertex_y (vs ! 0))) @ lit '' '' @
        str_nat (clamped_coordinate (vertex_x (vs ! 2))) @ lit '' '' @
        str_nat (clamped_coordinate (vertex_y (vs ! 2))))
   \<and> (length vs < 4 \<longrightarrow> get_bbox \<lparr>vertices = Some vs\<rparr> = lit ''0 0 0 0'')
   \<and> get_bbox \<lparr>vertices = None\<rparr> = lit ''0 0 0 0''
   \<and> get_bbox \<lparr>vertices = Some [pt 0 0, pt 10 0, pt 10 5, pt 0 5]\<rparr> = lit ''0 0 10 5''"
proof -
  have ex: "get_bbox \<lparr>vertices = Some [pt 0 0, pt 10 0, pt 10 5, pt 0 5]\<rparr> = lit ''0 0 10 5''"
    by (simp add: get_bbox_def get_default_def pt_def str_int_def str_nat_digit str_nat_10 lit_def)
  have few: "length ws < 4 \<Longrightarrow> get_bbox \<lparr>vertices = Some ws\<rparr> = lit ''0 0 0 0''" for ws
    by (simp add: get_bbox_def get_default_def)
  have none: "get_bbox \<lparr>vertices = None\<rparr> = lit ''0 0 0 0''"
    by (simp add: get_bbox_def get_default_def)
  have four: "get_bbox \<lparr>vertices = Some vs\<rparr> =
        str_nat (clamped_coordinate (vertex_x (vs ! 0))) @ lit '' '' @
        str_nat (clamped_coordinate (vertex_y (vs ! 0))) @ lit '' '' @
        str_nat (clamped_coordinate (vertex_x (vs ! 2))) @ lit '' '' @
        str_nat (clamped_coordinate (vertex_y (vs ! 2)))" if "4 \<le> length vs"
  proof -
    have "get_default (vertices \<lparr>vertices = Some vs\<rparr>) [] = vs"
      by (simp add: get_default_def)
    with that show ?thesis
      by (simp add: get_bbox_def Let_def str_int_clamped)
  qed
  from ex few none four show ?thesis by blast
qed

theorem get_bbox_first_third_corner_witness:
  "get_bbox \<lparr>vertices = Some [pt (-3) 7, pt 1 1, pt 12 (-4), pt 2 2]\<rparr> = lit ''0 7 12 0''
   \<and> get_bbox \<lparr>vertices = Some [pt 1 2, pt 3 4, pt 5 6]\<rparr> = lit ''0 0 0 0''"
  using get_bbox_first_third_corner [of "[pt (-3) 7, pt 1 1, pt 12 (-4), pt 2 2]"]
        get_bbox_first_third_corner [of "[pt 1 2, pt 3 4, pt 5 6]"]
  by (simp add: pt_def clamped_coordinate_def str_nat_digit str_nat.simps [of 12] lit_def)

text \<open>
  C4. A word whose joined symbol text is empty or has white space only leaves the
  state of the loop as it was: no line is appended and the word counter keeps its
  value. So the loop over a paragraph's words, and with it the paragraph, gives the
  same result as if the word were not in the list, and the words after it are
  numbered as if it were not there.
\<close>

theorem blank_word_is_skipped:
  assumes "\<forall>c \<in> set (joined_symbol_text word). py_isspace c"
  shows "word_step fa st word = st
    \<and> foldl (word_step fa) st (ws1 @ word # ws2) = foldl (word_step fa) st (ws1 @ ws2)
    \<and> paragraph_step fa st (p\<lparr>paragraph_words := Some (ws1 @ word # ws2)\<rparr>) =
        paragraph_step fa st (p\<lparr>paragraph_words := Some (ws1 @ ws2)\<rparr>)"
proof -
  from assms have blank: "\<not> emitted word"
    by (simp add: emitted_def strip_empty_iff)
  then have skip: "foldl (word_step fa) s (ws1 @ word # ws2) = foldl (word_step fa) s (ws1 @ ws2)" for s
    by (rule foldl_word_step_skip)
  have "paragraph_step fa st (p\<lparr>paragraph_words := Some (ws1 @ word # ws2)\<rparr>) =
        paragraph_step fa st (p\<lparr>paragraph_words := Some (ws1 @ ws2)\<rparr>)"
    by (simp add: paragraph_step_def Let_def get_default_def skip del: foldl_append)
  with blank skip show ?thesis
    by (simp add: word_step_blank)
qed

theorem blank_word_is_skipped_witness:
  "word_step exact_arith st0 blank_word = st0
   \<and> lines (foldl (word_step exact_arith) st0 [hello_word, blank_word, world_word]) =
       [word_line 1 (lit ''1 1 30 10'') (get_confidence exact_arith hello_word) (lit ''Hello''),
        word_line 2 (lit ''40 1 80 10'') (get_confidence exact_arith world_word) (lit ''World'')]"
proof -
  have h: "word_bbox_of hello_word = lit ''1 1 30 10''"
    by (simp add: hello_word_def word_bbox_of_def box_def pt_def get_default_def get_bbox_def
        str_int_def str_nat_digit str_nat.simps [of 10] str_nat.simps [of 30] lit_def)
  have w: "word_bbox_of world_word = lit ''40 1 80 10''"
    by (simp add: world_word_def word_bbox_of_def box_def pt_def get_default_def get_bbox_def
        str_int_def str_nat_digit str_nat.simps [of 10] str_nat.simps [of 40] str_nat.simps [of 80] lit_def)
  have th: "escape_html (joined_symbol_text hello_word) = lit ''Hello''"
    by (simp add: hello_word_def joined_symbol_text_def get_default_def sym_def lit_def
        escape_html_entities entity_def)
  have tw: "escape_html (joined_symbol_text world_word) = lit ''World''"
    by (simp add: world_word_def joined_symbol_text_def get_default_def sym_def lit_def
        escape_html_entities entity_def)
  have two: "lines (foldl (word_step exact_arith) st0 [hello_word, world_word]) =
       [word_line 1 (lit ''1 1 30 10'') (get_confidence exact_arith hello_word) (lit ''Hello''),
        word_line 2 (lit ''40 1 80 10'') (get_confidence exact_arith world_word) (lit ''World'')]"
    by (simp add: word_step_emitted emitted_hello_word emitted_world_word h w th tw st0_def
        numeral_2_eq_2)
  from blank_word_is_skipped [OF blank_word_white, of exact_arith st0 "[hello_word]" "[world_word]"]
  show ?thesis using two by simp
qed

text \<open>
  C5. The three failures leave the files as they were. Without a credential the
  method raises with the world unchanged: no request has been sent and nothing is
  written. With a status from 400 to 599, or with an error object in the first entry
  of the reply, it raises after the request and the only change to the world is the
  request in the log; the files are those of the start.
\<close>

theorem failures_write_no_file:
  "(py_not (environ w (lit ''GOOGLE_VISION_API_KEY'')) \<longrightarrow>
      generate_hocr fa input_file output_hocr output_text options w =
        (Inl (RuntimeError missing_key_message), w))
   \<and> (answered w input_file (Response status body) \<and> 400 \<le> status \<and> status < 600 \<longrightarrow>
      generate_hocr fa input_file output_hocr output_text options w =
        (Inl (HTTPError status), w\<lparr>posts := posts w @ [the_request w input_file]\<rparr>))
   \<and> (answered w input_file (Response status (Some result)) \<and> \<not> (400 \<le> status \<and> status < 600) \<and>
      get_default (result_responses result) [empty_annotation] = annotation # rest \<and>
      annotation_error annotation = Some err \<longrightarrow>
      generate_hocr fa input_file output_hocr output_text options w =
        (Inl (RuntimeError (api_error_prefix @
                get_default (error_message err) (lit ''Unknown error''))),
         w\<lparr>posts := posts w @ [the_request w input_file]\<rparr>))"
proof -
  have a: "generate_hocr fa input_file output_hocr output_text options w =
        (Inl (RuntimeError missing_key_message), w)"
    if "py_not (environ w (lit ''GOOGLE_VISION_API_KEY''))"
    using that by (rule generate_hocr_no_key)
  have b: "generate_hocr fa input_file output_hocr output_text options w =
        (Inl (HTTPError status), w\<lparr>posts := posts w @ [the_request w input_file]\<rparr>)"
    if "answered w input_file (Response status body)" "400 \<le> status" "status < 600"
    using that(2,3) by (simp add: generate_hocr_answered [OF that(1)] Let_def)
  have c: "generate_hocr fa input_file output_hocr output_text options w =
        (Inl (RuntimeError (api_error_prefix @
                get_default (error_message err) (lit ''Unknown error''))),
         w\<lparr>posts := posts w @ [the_request w input_file]\<rparr>)"
    if "answered w input_file (Response status (Some result))"
      "\<not> (400 \<le> status \<and> status < 600)"
      "get_default (result_responses result) [empty_annotation] = annotation # rest"
      "annotation_error annotation = Some err"
    using that(2-4) by (simp add: generate_hocr_answered [OF that(1)] Let_def)
  from a b c show ?thesis by blast
qed

theorem failures_write_no_file_witness:
  "generate_hocr exact_arith (lit ''page.png'') (lit ''out.hocr'') (lit ''out.txt'') ()
     ((reply_world no_text_reply)\<lparr>environ := Map.empty\<rparr>) =
     (Inl (RuntimeError missing_key_message), (reply_world no_text_reply)\<lparr>environ := Map.empty\<rparr>)
   \<and> generate_hocr exact_arith (lit ''page.png'') (lit ''out.hocr'') (lit ''out.txt'') ()
       (reply_world (Response 403 None)) =
     (Inl (HTTPError 403), sent_world (Response 403 None))
   \<and> generate_hocr exact_arith (lit ''page.png'') (lit ''out.hocr'') (lit ''out.txt'') ()
       (reply_world quota_reply) =
     (Inl (RuntimeError (api_error_prefix @ lit ''Quota exceeded'')), sent_world quota_reply)
   \<and> files (sent_world quota_reply) = files (reply_world quota_reply)"
proof -
  let ?q = "\<lparr>annotation_error = Some \<lparr>error_message = Some (lit ''Quota exceeded'')\<rparr>,
         annotation_fullTextAnnotation = None\<rparr>"
  have 1: "generate_hocr exact_arith (lit ''page.png'') (lit ''out.hocr'') (lit ''out.txt'') ()
     ((reply_world no_text_reply)\<lparr>environ := Map.empty\<rparr>) =
     (Inl (RuntimeError missing_key_message), (reply_world no_text_reply)\<lparr>environ := Map.empty\<rparr>)"
    using failures_write_no_file
      [of "(reply_world no_text_reply)\<lparr>environ := Map.empty\<rparr>" exact_arith "lit ''page.png''"
          "lit ''out.hocr''" "lit ''out.txt''" "()"]
    by (simp add: py_not_def)
  have 2: "generate_hocr exact_arith (lit ''page.png'') (lit ''out.hocr'') (lit ''out.txt'') ()
       (reply_world (Response 403 None)) =
     (Inl (HTTPError 403), sent_world (Response 403 None))"
    using failures_write_no_file
      [of "reply_world (Response 403 None)" exact_arith "lit ''page.png''"
          "lit ''out.hocr''" "lit ''out.txt''" "()" 403 None]
      reply_world_answered [of "Response 403 None"]
    by (simp add: reply_world_sent)
  have 3: "generate_hocr exact_arith (lit ''page.png'') (lit ''out.hocr'') (lit ''out.txt'') ()
       (reply_world quota_reply) =
     (Inl (RuntimeError (api_error_prefix @ lit ''Quota exceeded'')), sent_world quota_reply)"
    using failures_write_no_file
      [of "reply_world quota_reply" exact_arith "lit ''page.png''"
          "lit ''out.hocr''" "lit ''out.txt''" "()" 200 "Some \<lparr>result_responses = Some [?q]\<rparr>"
          "\<lparr>result_responses = Some [?q]\<rparr>" ?q "[]"
          "\<lparr>error_message = Some (lit ''Quota exceeded'')\<rparr>"]
      reply_world_answered [of quota_reply]
    by (simp add: reply_world_sent quota_reply_def get_default_def)
  have 4: "files (sent_world quota_reply) = files (reply_world quota_reply)"
    by (simp add: sent_world_def)
  from 1 2 3 4 show ?thesis by simp
qed



text \<open>
  C7. In the text of an emitted word each of the four characters \<open>&\<close>, \<open><\<close>, \<open>>\<close> and
  the double quote is replaced by its entity, and every other character stays as it
  is, wherever the characters stand: the four replacements in a row do the same as
  replacing each character on its own. This is the text the leaf of the word carries.
\<close>

theorem escape_html_four_characters:
  "escape_html t = concat (map entity t)
   \<and> (emitted word \<longrightarrow>
        lines (word_step fa st word) =
          lines st @ [word_line (word_id st + 1) (word_bbox_of word) (get_confidence fa word)
                        (concat (map entity (joined_symbol_text word)))])"
  by (simp add: word_step_emitted flip: escape_html_entities)

theorem escape_html_four_characters_witness:
  \<open>escape_html (lit ''a < b && "c" > d;'') = lit ''a &lt; b &amp;&amp; &quot;c&quot; &gt; d;''
   \<and> lines (word_step exact_arith st0 amp_word) =
       [word_line 1 (lit ''0 0 0 0'') (get_confidence exact_arith amp_word)
          (lit ''&lt;R&amp;D&gt;&quot;'')]\<close>
proof -
  have t: "joined_symbol_text amp_word = [60, 82, 38, 68, 62, 34]"
    by (simp add: amp_word_def joined_symbol_text_def get_default_def sym_def lit_def)
  have b: "word_bbox_of amp_word = lit ''0 0 0 0''"
    by (simp add: amp_word_def word_bbox_of_def get_default_def empty_bounding_box_def get_bbox_def)
  show ?thesis
    using escape_html_four_characters [of \<open>lit ''a < b && "c" > d;''\<close> amp_word exact_arith st0]
      emitted_amp_word
    by (simp add: t b entity_def lit_def st0_def)
qed

text \<open>
  C8. The method raises the configuration error when the credential variable is not
  set, and also when it is set to the empty string; in both cases the world is
  unchanged.
\<close>

theorem empty_credential_is_missing:
  "environ w (lit ''GOOGLE_VISION_API_KEY'') = None \<or>
   environ w (lit ''GOOGLE_VISION_API_KEY'') = Some [] \<Longrightarrow>
   generate_hocr fa input_file output_hocr output_text options w =
     (Inl (RuntimeError missing_key_message), w)"
  by (rule generate_hocr_no_key) (auto simp: py_not_def)

theorem empty_credential_is_missing_witness:
  "generate_hocr exact_arith (lit ''page.png'') (lit ''out.hocr'') (lit ''out.txt'') ()
     ((reply_world no_text_reply)\<lparr>environ := [lit ''GOOGLE_VISION_API_KEY'' \<mapsto> []]\<rparr>) =
   (Inl (RuntimeError missing_key_message),
    (reply_world no_text_reply)\<lparr>environ := [lit ''GOOGLE_VISION_API_KEY'' \<mapsto> []]\<rparr>)"
  using empty_credential_is_missing
    [of "(reply_world no_text_reply)\<lparr>environ := [lit ''GOOGLE_VISION_API_KEY'' \<mapsto> []]\<rparr>"
        exact_arith "lit ''page.png''" "lit ''out.hocr''" "lit ''out.txt''" "()"]
  by simp

text \<open>
  C9. When the request is answered with a success status and a JSON body whose
  \<open>responses\<close> is the empty list, the method raises \<open>IndexError\<close>, which is none of the
  errors it raises on purpose. The default \<open>[{}]\<close> is used only when the key is absent,
  and then the method writes the empty document and returns.
\<close>

theorem empty_responses_list_raises_IndexError:
  assumes "answered w input_file (Response status (Some result))"
    and "\<not> (400 \<le> status \<and> status < 600)"
  shows "(result_responses result = Some [] \<longrightarrow>
          generate_hocr fa input_file output_hocr output_text options w =
            (Inl IndexError, w\<lparr>posts := posts w @ [the_request w input_file]\<rparr>))
    \<and> (result_responses result = None \<longrightarrow>
          generate_hocr fa input_file output_hocr output_text options w =
            (Inr (), w\<lparr>posts := posts w @ [the_request w input_file],
                       files := (files w)(output_hocr \<mapsto> empty_hocr, output_text \<mapsto> [])\<rparr>))"
  by (simp add: generate_hocr_answered [OF assms(1)] assms(2) Let_def get_default_def
      empty_annotation_def detected_pages_def empty_full_text_annotation_def write_text_def
      write_empty_hocr_def)

theorem empty_responses_list_raises_IndexError_witness:
  "generate_hocr exact_arith (lit ''page.png'') (lit ''out.hocr'') (lit ''out.txt'') ()
     (reply_world (Response 200 (Some \<lparr>result_responses = Some []\<rparr>))) =
   (Inl IndexError, sent_world (Response 200 (Some \<lparr>result_responses = Some []\<rparr>)))"
  using empty_responses_list_raises_IndexError
      [OF reply_world_answered, of 200 "\<lparr>result_responses = Some []\<rparr>" exact_arith
         "lit ''out.hocr''" "lit ''out.txt''" "()"]
  by (simp add: reply_world_sent)

text \<open>
  C10. With at least four vertices the bbox string depends on the first and third
  vertex only: two vertex lists that agree there give the same string, whatever the
  second, fourth and later vertices are.
\<close>

theorem get_bbox_depends_on_corners_0_2:
  "4 \<le> length vs \<Longrightarrow> 4 \<le> length vs' \<Longrightarrow> vs ! 0 = vs' ! 0 \<Longrightarrow> vs ! 2 = vs' ! 2 \<Longrightarrow>
   get_bbox \<lparr>vertices = Some vs\<rparr> = get_bbox \<lparr>vertices = Some vs'\<rparr>"
  by (simp add: get_bbox_def Let_def get_default_def)

theorem get_bbox_depends_on_corners_0_2_witness:
  "get_bbox \<lparr>vertices = Some [pt 1 2, pt (-9) 9, pt 30 40, \<lparr>vertex_x = None, vertex_y = None\<rparr>]\<rparr> =
   get_bbox \<lparr>vertices = Some [pt 1 2, \<lparr>vertex_x = None, vertex_y = Some 5\<rparr>, pt 30 40, pt 7 (-7), pt 0 0]\<rparr>"
  using get_bbox_depends_on_corners_0_2
    [of "[pt 1 2, pt (-9) 9, pt 30 40, \<lparr>vertex_x = None, vertex_y = None\<rparr>]"
        "[pt 1 2, \<lparr>vertex_x = None, vertex_y = Some 5\<rparr>, pt 30 40, pt 7 (-7), pt 0 0]"]
  by simp

end
